theory Spec2Isabelle
  imports Complex_Main
begin

section \<open>Python values, strings and errors\<close>

text \<open>
  A Python \<^verbatim>\<open>str\<close> is a sequence of Unicode code points; it is modelled as a list of
  natural numbers (the code points), so that \<^verbatim>\<open>len\<close>, \<^verbatim>\<open>strip\<close> and the regular
  expressions of \<^verbatim>\<open>utils.py\<close> count what Python counts.  A Python \<^verbatim>\<open>float\<close> that holds an
  amount, a probability or a percentage is modelled by the rational number it denotes:
  rounding, overflow to \<^verbatim>\<open>inf\<close> and underflow to \<^verbatim>\<open>0.0\<close> of binary floating point are
  not part of the model.
\<close>

type_synonym pystr = "nat list"

datatype py_error = ValueError | AttributeError | TypeError

text \<open>
  The outcome of one round of a Python loop body (or of a \<^verbatim>\<open>try\<close> block): the function
  returns, the loop goes on (\<^verbatim>\<open>continue\<close>, \<^verbatim>\<open>pass\<close>), or an exception leaves the function.
\<close>

datatype 'a step = Return 'a | Continue | Raise py_error

text \<open>
  The two tables of the Unicode database that the code reads through \<^verbatim>\<open>re\<close> and \<^verbatim>\<open>float\<close>
  depend on the Unicode version of the interpreter and are parameters of the model:
  \<open>decimal\<close> gives the value of a decimal digit (category Nd; what \<^verbatim>\<open>\d\<close> matches and
  \<^verbatim>\<open>float\<close> converts), \<open>alnum\<close> is \<^verbatim>\<open>str.isalnum\<close> (with the underscore, what \<^verbatim>\<open>\w\<close>
  matches).
\<close>

record unicode_db =
  decimal :: "nat \<Rightarrow> nat option"
  alnum :: "nat \<Rightarrow> bool"

definition isdigit :: "unicode_db \<Rightarrow> nat \<Rightarrow> bool" where
  "isdigit U c \<longleftrightarrow> decimal U c \<noteq> None"

definition isword :: "unicode_db \<Rightarrow> nat \<Rightarrow> bool" where
  "isword U c \<longleftrightarrow> alnum U c \<or> c = 95"

text \<open>The table used for concrete inputs: ASCII and the Russian alphabet.\<close>

definition ascii_cyrillic :: unicode_db where
  "ascii_cyrillic =
     \<lparr>decimal = (\<lambda>c. if 48 \<le> c \<and> c \<le> 57 then Some (c - 48) else None),
      alnum = (\<lambda>c. (48 \<le> c \<and> c \<le> 57) \<or> (65 \<le> c \<and> c \<le> 90) \<or> (97 \<le> c \<and> c \<le> 122)
                    \<or> (1040 \<le> c \<and> c \<le> 1103) \<or> c = 1025 \<or> c = 1105)\<rparr>"

text \<open>
  \<^verbatim>\<open>str.isspace\<close>, which is also what \<^verbatim>\<open>\s\<close> matches and what \<^verbatim>\<open>str.strip()\<close> removes.
\<close>

definition isspace :: "nat \<Rightarrow> bool" where
  "isspace c \<longleftrightarrow> (9 \<le> c \<and> c \<le> 13) \<or> (28 \<le> c \<and> c \<le> 32) \<or> c = 133 \<or> c = 160
      \<or> c = 5760 \<or> (8192 \<le> c \<and> c \<le> 8202) \<or> c = 8232 \<or> c = 8233 \<or> c = 8239
      \<or> c = 8287 \<or> c = 12288"

definition strip :: "pystr \<Rightarrow> pystr" where
  "strip s = rev (dropWhile isspace (rev (dropWhile isspace s)))"

definition replace_chr :: "nat \<Rightarrow> nat \<Rightarrow> pystr \<Rightarrow> pystr" where
  "replace_chr a b s = map (\<lambda>c. if c = a then b else c) s"

definition remove_chr :: "nat \<Rightarrow> pystr \<Rightarrow> pystr" where
  "remove_chr a s = filter (\<lambda>c. c \<noteq> a) s"

section \<open>The regular expressions of \<^verbatim>\<open>utils.py\<close>\<close>

text \<open>
  The fragment of Python's \<^verbatim>\<open>re\<close> that the patterns of \<^verbatim>\<open>parse_amount\<close> use.  A
  quantifier is applied to a character class only (\<^verbatim>\<open>\d+\<close>, \<^verbatim>\<open>\s*\<close>, \<^verbatim>\<open>.*\<close>, \<^verbatim>\<open>.+?\<close>), or
  is the greedy \<^verbatim>\<open>?\<close>.  \<open>Star\<close> is the greedy \<^verbatim>\<open>*\<close>, \<open>Lazy\<close> the non-greedy \<^verbatim>\<open>*?\<close>; \<^verbatim>\<open>x+\<close> is
  \<^verbatim>\<open>xx*\<close>.  \<open>Wordb\<close> is \<^verbatim>\<open>\b\<close> and carries the predicate of \<^verbatim>\<open>\w\<close>.
\<close>

datatype re =
    Eps
  | Cls "nat \<Rightarrow> bool"
  | Star "nat \<Rightarrow> bool"
  | Lazy "nat \<Rightarrow> bool"
  | Opt re
  | Seq re re
  | Alt re re
  | Grp nat re
  | Wordb "nat \<Rightarrow> bool"
  | Bol
  | Eol

text \<open>
  The state of the backtracking matcher: the text before the position (reversed, so that
  its head is the previous character), the text from the position on, and the groups
  captured so far (the latest capture of a group first).
\<close>

record mstate =
  consumed :: pystr
  remaining :: pystr
  captures :: "(nat \<times> pystr) list"

text \<open>
  The matcher is written in continuation-passing style: \<open>k\<close> matches the rest of the
  pattern, and a failure of \<open>k\<close> makes the matcher try its next alternative, in the order
  in which Python's backtracking engine tries them (a greedy quantifier the longest
  repetition first, a lazy one the shortest first, \<^verbatim>\<open>|\<close> from left to right).
\<close>

fun greedy :: "(nat \<Rightarrow> bool) \<Rightarrow> pystr \<Rightarrow> pystr \<Rightarrow> (pystr \<Rightarrow> pystr \<Rightarrow> 'a option) \<Rightarrow> 'a option" where
  "greedy P b [] k = k b []"
| "greedy P b (c # cs) k =
     (if P c then (case greedy P (c # b) cs k of Some r \<Rightarrow> Some r | None \<Rightarrow> k b (c # cs))
      else k b (c # cs))"

fun lazy :: "(nat \<Rightarrow> bool) \<Rightarrow> pystr \<Rightarrow> pystr \<Rightarrow> (pystr \<Rightarrow> pystr \<Rightarrow> 'a option) \<Rightarrow> 'a option" where
  "lazy P b [] k = k b []"
| "lazy P b (c # cs) k =
     (case k b (c # cs) of Some r \<Rightarrow> Some r
      | None \<Rightarrow> if P c then lazy P (c # b) cs k else None)"

definition moved :: "mstate \<Rightarrow> pystr \<Rightarrow> pystr \<Rightarrow> mstate" where
  "moved s b r = s\<lparr>consumed := b, remaining := r\<rparr>"

definition captured :: "mstate \<Rightarrow> mstate \<Rightarrow> pystr" where
  "captured s s' = rev (take (length (consumed s') - length (consumed s)) (consumed s'))"

definition at_boundary :: "(nat \<Rightarrow> bool) \<Rightarrow> mstate \<Rightarrow> bool" where
  "at_boundary W s \<longleftrightarrow>
     (case consumed s of [] \<Rightarrow> False | c # _ \<Rightarrow> W c) \<noteq> (case remaining s of [] \<Rightarrow> False | c # _ \<Rightarrow> W c)"

fun rmatch :: "re \<Rightarrow> mstate \<Rightarrow> (mstate \<Rightarrow> 'a option) \<Rightarrow> 'a option" where
  "rmatch Eps s k = k s"
| "rmatch (Cls P) s k =
     (case remaining s of [] \<Rightarrow> None
      | c # cs \<Rightarrow> if P c then k (moved s (c # consumed s) cs) else None)"
| "rmatch (Star P) s k = greedy P (consumed s) (remaining s) (\<lambda>b r. k (moved s b r))"
| "rmatch (Lazy P) s k = lazy P (consumed s) (remaining s) (\<lambda>b r. k (moved s b r))"
| "rmatch (Opt a) s k = (case rmatch a s k of Some r \<Rightarrow> Some r | None \<Rightarrow> k s)"
| "rmatch (Seq a b) s k = rmatch a s (\<lambda>s'. rmatch b s' k)"
| "rmatch (Alt a b) s k = (case rmatch a s k of Some r \<Rightarrow> Some r | None \<Rightarrow> rmatch b s k)"
| "rmatch (Grp n a) s k =
     rmatch a s (\<lambda>s'. k (s'\<lparr>captures := (n, captured s s') # captures s'\<rparr>))"
| "rmatch (Wordb W) s k = (if at_boundary W s then k s else None)"
| "rmatch Bol s k = (if consumed s = [] then k s else None)"
| "rmatch Eol s k = (if remaining s = [] \<or> remaining s = [10] then k s else None)"

text \<open>
  \<^verbatim>\<open>match.groups()\<close> of a pattern with \<open>n\<close> groups: the text of each group, \<open>None\<close> for a
  group that took no part in the match.
\<close>

definition groups_of :: "nat \<Rightarrow> mstate \<Rightarrow> pystr option list" where
  "groups_of n s = map (\<lambda>i. map_of (captures s) i) [1..<Suc n]"

text \<open>\<^verbatim>\<open>re.match\<close> tries the pattern at the start of the text only.\<close>

definition re_match :: "re \<Rightarrow> nat \<Rightarrow> pystr \<Rightarrow> pystr option list option" where
  "re_match r n text =
     rmatch r \<lparr>consumed = [], remaining = text, captures = []\<rparr> (\<lambda>s. Some (groups_of n s))"

text \<open>\<^verbatim>\<open>re.search\<close> tries every position of the text, from left to right.\<close>

fun search_from :: "re \<Rightarrow> nat \<Rightarrow> pystr \<Rightarrow> pystr \<Rightarrow> pystr option list option" where
  "search_from r n b [] =
     rmatch r \<lparr>consumed = b, remaining = [], captures = []\<rparr> (\<lambda>s. Some (groups_of n s))"
| "search_from r n b (c # cs) =
     (case rmatch r \<lparr>consumed = b, remaining = c # cs, captures = []\<rparr> (\<lambda>s. Some (groups_of n s)) of
        Some g \<Rightarrow> Some g
      | None \<Rightarrow> search_from r n (c # b) cs)"

definition re_search :: "re \<Rightarrow> nat \<Rightarrow> pystr \<Rightarrow> pystr option list option" where
  "re_search r n text = search_from r n [] text"

fun seqs :: "re list \<Rightarrow> re" where
  "seqs [] = Eps"
| "seqs [r] = r"
| "seqs (r # rs) = Seq r (seqs rs)"

fun alts :: "re list \<Rightarrow> re" where
  "alts [] = Eps"
| "alts [r] = r"
| "alts (r # rs) = Alt r (alts rs)"

text \<open>
  A character of the pattern under \<^verbatim>\<open>re.IGNORECASE\<close> is the class of the code points
  that match it; \<open>word_i\<close> is a word of such characters.
\<close>

definition one_of :: "nat list \<Rightarrow> nat \<Rightarrow> bool" where
  "one_of cs c \<longleftrightarrow> c \<in> set cs"

definition word_i :: "nat list list \<Rightarrow> re" where
  "word_i w = seqs (map (\<lambda>cs. Cls (one_of cs)) w)"

definition any_chr :: "nat \<Rightarrow> bool" where
  "any_chr c \<longleftrightarrow> c \<noteq> 10"

text \<open>\<^verbatim>\<open>-?\d+(?:[\.,]\d+)?\<close>\<close>

definition number_re :: "unicode_db \<Rightarrow> re" where
  "number_re U =
     seqs [Opt (Cls (one_of [45])), Cls (isdigit U), Star (isdigit U),
           Opt (seqs [Cls (one_of [46, 44]), Cls (isdigit U), Star (isdigit U)])]"

text \<open>
  The currency words of the patterns, matched without regard to case, each letter with
  its lower-case and upper-case code point: the Russian words written here RUB (U+0440
  U+0443 U+0431), RUBLEJ (RUB and U+043B U+0435 U+0439), RUBLJA (RUB and U+043B U+044F) and
  R (U+0440), and the rouble sign U+20BD, written here SIGN.
\<close>

definition rub :: re where
  "rub = word_i [[1088, 1056], [1091, 1059], [1073, 1041]]"

definition rublej :: re where
  "rublej = word_i [[1088, 1056], [1091, 1059], [1073, 1041], [1083, 1051], [1077, 1045], [1081, 1049]]"

definition rublja :: re where
  "rublja = word_i [[1088, 1056], [1091, 1059], [1073, 1041], [1083, 1051], [1103, 1071]]"

definition r_letter :: re where
  "r_letter = word_i [[1088, 1056]]"

definition rouble_sign :: re where
  "rouble_sign = Cls (one_of [8381])"

text \<open>\<^verbatim>\<open>RUB\b|RUBLEJ\b|RUBLJA\b|R\b|SIGN\b\<close>\<close>

definition currency_b :: "unicode_db \<Rightarrow> re" where
  "currency_b U =
     alts [Seq rub (Wordb (isword U)), Seq rublej (Wordb (isword U)),
           Seq rublja (Wordb (isword U)), Seq r_letter (Wordb (isword U)),
           Seq rouble_sign (Wordb (isword U))]"

text \<open>\<^verbatim>\<open>RUB\b|RUBLEJ\b|RUBLJA\b|R\b|SIGN\<close>\<close>

definition currency_sign :: "unicode_db \<Rightarrow> re" where
  "currency_sign U =
     alts [Seq rub (Wordb (isword U)), Seq rublej (Wordb (isword U)),
           Seq rublja (Wordb (isword U)), Seq r_letter (Wordb (isword U)),
           rouble_sign]"

text \<open>
  \<^verbatim>\<open>^(-?\d+(?:[\.,]\d+)?)\s*[KkK](?:\s*(?:RUB\b|RUBLEJ\b|RUBLJA\b|R\b|SIGN\b))?\s*(.*)$\<close> under
  \<^verbatim>\<open>re.IGNORECASE\<close>, where the first letter of the class \<^verbatim>\<open>[KkK]\<close> is the Cyrillic U+043A:
  the class then matches the Cyrillic and the Latin letter in both cases, and the Kelvin
  sign U+212A.
\<close>

definition k_pattern :: "unicode_db \<Rightarrow> re" where
  "k_pattern U =
     seqs [Bol, Grp 1 (number_re U), Star isspace, Cls (one_of [1082, 1050, 107, 75, 8490]),
           Opt (Seq (Star isspace) (currency_b U)), Star isspace, Grp 2 (Star any_chr), Eol]"

text \<open>\<^verbatim>\<open>^(.+?)\s+(-?\d+(?:[\.,]\d+)?)\s*(RUB\b|RUBLEJ\b|RUBLJA\b|R\b|SIGN\b)?$\<close>\<close>

definition pattern1 :: "unicode_db \<Rightarrow> re" where
  "pattern1 U =
     seqs [Bol, Grp 1 (Seq (Cls any_chr) (Lazy any_chr)), Cls isspace, Star isspace,
           Grp 2 (number_re U), Star isspace, Opt (Grp 3 (currency_b U)), Eol]"

text \<open>\<^verbatim>\<open>^(.+?)\s+(-?\d+(?:[\.,]\d+)?)$\<close>\<close>

definition pattern2 :: "unicode_db \<Rightarrow> re" where
  "pattern2 U =
     seqs [Bol, Grp 1 (Seq (Cls any_chr) (Lazy any_chr)), Cls isspace, Star isspace,
           Grp 2 (number_re U), Eol]"

text \<open>\<^verbatim>\<open>^(-?\d+(?:[\.,]\d+)?)\s*(RUB\b|RUBLEJ\b|RUBLJA\b|R\b|SIGN)?$\<close>\<close>

definition pattern3 :: "unicode_db \<Rightarrow> re" where
  "pattern3 U =
     seqs [Bol, Grp 1 (number_re U), Star isspace, Opt (Grp 2 (currency_sign U)), Eol]"

text \<open>The list \<^verbatim>\<open>patterns\<close>, each pattern with its number of groups.\<close>

definition patterns :: "unicode_db \<Rightarrow> (re \<times> nat) list" where
  "patterns U = [(pattern1 U, 3), (pattern2 U, 2), (pattern3 U, 2)]"

text \<open>\<^verbatim>\<open>^-?\d\<close>, used with \<^verbatim>\<open>re.match\<close> and without \<^verbatim>\<open>re.IGNORECASE\<close>.\<close>

definition starts_number_re :: "unicode_db \<Rightarrow> re" where
  "starts_number_re U = seqs [Bol, Opt (Cls (one_of [45])), Cls (isdigit U)]"

section \<open>\<^verbatim>\<open>utils.parse_amount\<close> and \<^verbatim>\<open>utils.validate_amount\<close>\<close>

text \<open>
  \<^verbatim>\<open>float(s)\<close> on the strings that reach it: an optional minus sign, decimal digits and at
  most one point.  Any other string is a \<^verbatim>\<open>ValueError\<close> (\<open>None\<close>) here; Python's \<^verbatim>\<open>float\<close>
  also reads exponents, \<^verbatim>\<open>inf\<close>, \<^verbatim>\<open>nan\<close>, a plus sign, underscores and surrounding white
  space, none of which the number pattern lets through.
\<close>

primrec digits_nat :: "unicode_db \<Rightarrow> pystr \<Rightarrow> nat \<Rightarrow> nat option" where
  "digits_nat U [] acc = Some acc"
| "digits_nat U (c # cs) acc =
     (case decimal U c of None \<Rightarrow> None | Some d \<Rightarrow> digits_nat U cs (10 * acc + d))"

definition unsigned_float :: "unicode_db \<Rightarrow> pystr \<Rightarrow> rat option" where
  "unsigned_float U s =
     (let ip = takeWhile (\<lambda>c. c \<noteq> 46) s; fp = drop 1 (dropWhile (\<lambda>c. c \<noteq> 46) s)
      in if ip = [] \<and> fp = [] then None
         else (case (digits_nat U ip 0, digits_nat U fp 0) of
                 (Some i, Some f) \<Rightarrow> Some (of_nat i + of_nat f / 10 ^ length fp)
               | _ \<Rightarrow> None))"

definition py_float :: "unicode_db \<Rightarrow> pystr \<Rightarrow> rat option" where
  "py_float U s =
     (case s of
        [] \<Rightarrow> None
      | c # cs \<Rightarrow> if c = 45 then map_option uminus (unsigned_float U cs) else unsigned_float U s)"

text \<open>
  The branch of the shorthand suffix.  \<open>Continue\<close> stands for falling through to the
  list of patterns: the pattern did not match, or \<^verbatim>\<open>float\<close> raised \<^verbatim>\<open>ValueError\<close>.
\<close>

definition k_branch :: "unicode_db \<Rightarrow> pystr \<Rightarrow> (rat \<times> pystr) option step" where
  "k_branch U text =
     (case re_search (k_pattern U) 2 text of
        None \<Rightarrow> Continue
      | Some g \<Rightarrow>
          (case g ! 0 of
             None \<Rightarrow> Raise AttributeError
           | Some num_str \<Rightarrow>
               (case py_float U (replace_chr 44 46 num_str) of
                  None \<Rightarrow> Continue
                | Some num \<Rightarrow>
                    (let amount = num * 1000 in
                     case g ! 1 of
                       None \<Rightarrow> Raise AttributeError
                     | Some rest \<Rightarrow>
                         (let description = strip rest in
                          if amount \<le> 0 then Return None
                          else Return (Some (amount, description)))))))"

text \<open>The end of the loop body: from \<^verbatim>\<open>amount_str\<close> and \<^verbatim>\<open>description\<close> to the result.\<close>

definition to_amount :: "unicode_db \<Rightarrow> pystr \<Rightarrow> pystr option \<Rightarrow> (rat \<times> pystr) option step" where
  "to_amount U description amount_str =
     (case amount_str of
        None \<Rightarrow> Raise AttributeError
      | Some a \<Rightarrow>
          (let is_negative = (case a of [] \<Rightarrow> False | c # _ \<Rightarrow> c = 45);
               amount_str_clean = remove_chr 45 (replace_chr 44 46 a)
           in case py_float U amount_str_clean of
                None \<Rightarrow> Continue
              | Some amount0 \<Rightarrow>
                  (let amount = (if is_negative then - amount0 else amount0)
                   in if amount = 0 then Return None else Return (Some (amount, description)))))"

text \<open>
  The start of the loop body: the choice of \<^verbatim>\<open>description\<close> and \<^verbatim>\<open>amount_str\<close> among
  the groups.  \<^verbatim>\<open>str(None)\<close> is \<^verbatim>\<open>'None'\<close>, which does not start with a number, and
  \<^verbatim>\<open>None.strip()\<close> raises.
\<close>

definition loop_body :: "unicode_db \<Rightarrow> pystr option list \<Rightarrow> (rat \<times> pystr) option step" where
  "loop_body U g =
     (if length g = 3 then
        (case g ! 0 of
           None \<Rightarrow> Raise AttributeError
         | Some d \<Rightarrow> to_amount U (strip d) (g ! 1))
      else if length g = 2 then
        (case g ! 0 of
           None \<Rightarrow> Raise AttributeError
         | Some g0 \<Rightarrow>
             if re_match (starts_number_re U) 0 g0 \<noteq> None then to_amount U [] (Some g0)
             else to_amount U (strip g0) (g ! 1))
      else Continue)"

fun try_patterns :: "unicode_db \<Rightarrow> pystr \<Rightarrow> (re \<times> nat) list \<Rightarrow> py_error + (rat \<times> pystr) option" where
  "try_patterns U text [] = Inr None"
| "try_patterns U text ((p, n) # ps) =
     (case re_search p n text of
        None \<Rightarrow> try_patterns U text ps
      | Some g \<Rightarrow>
          (case loop_body U g of
             Return r \<Rightarrow> Inr r
           | Continue \<Rightarrow> try_patterns U text ps
           | Raise e \<Rightarrow> Inl e))"

text \<open>
  \<^verbatim>\<open>parse_amount\<close>: \<open>Inr None\<close> is the failure \<^verbatim>\<open>(None, None)\<close>, \<open>Inr (Some (amount,
  description))\<close> a parsed amount, \<open>Inl e\<close> an exception that leaves the function.
\<close>

definition parse_amount :: "unicode_db \<Rightarrow> pystr \<Rightarrow> py_error + (rat \<times> pystr) option" where
  "parse_amount U text0 =
     (if text0 = [] \<or> strip text0 = [] then Inr None
      else (let text = strip text0 in
            case k_branch U text of
              Return r \<Rightarrow> Inr r
            | Raise e \<Rightarrow> Inl e
            | Continue \<Rightarrow> try_patterns U text (patterns U)))"

datatype validation_msg =
    No_message
  | Enter_amount
  | Not_recognised
  | Must_be_positive
  | Too_large

definition validate_amount :: "unicode_db \<Rightarrow> pystr \<Rightarrow> py_error + (bool \<times> rat option \<times> validation_msg)" where
  "validate_amount U amount_str =
     (if amount_str = [] \<or> strip amount_str = [] then Inr (False, None, Enter_amount)
      else (case parse_amount U amount_str of
              Inl e \<Rightarrow> Inl e
            | Inr None \<Rightarrow> Inr (False, None, Not_recognised)
            | Inr (Some (amount, _)) \<Rightarrow>
                if amount \<le> 0 then Inr (False, None, Must_be_positive)
                else if amount > 1000000000 then Inr (False, None, Too_large)
                else Inr (True, Some amount, No_message)))"

section \<open>\<^verbatim>\<open>nlp_classifier.FinancialClassifier\<close>\<close>

text \<open>
  The fitted scikit-learn pipeline and the label encoder are the product of training,
  which is outside this development; the model consumes them as data.  \<open>pipeline\<close> is
  \<^verbatim>\<open>None\<close> (\<open>None\<close>) or \<^verbatim>\<open>predict_proba\<close> for one text, whose result \<open>None\<close> stands for an
  exception raised inside the pipeline; \<open>classes\<close> is \<^verbatim>\<open>label_encoder.classes_\<close>.
\<close>

record classifier =
  is_trained :: bool
  pipeline :: "(pystr \<Rightarrow> rat list option) option"
  classes :: "pystr list"

text \<open>\<^verbatim>\<open>numpy.argmax\<close> of a non-empty array: the first index of a largest element.\<close>

fun argmax_from :: "nat \<Rightarrow> rat \<Rightarrow> nat \<Rightarrow> rat list \<Rightarrow> nat" where
  "argmax_from best bv i [] = best"
| "argmax_from best bv i (x # xs) =
     (if bv < x then argmax_from i x (Suc i) xs else argmax_from best bv (Suc i) xs)"

definition argmax :: "rat list \<Rightarrow> nat option" where
  "argmax xs = (case xs of [] \<Rightarrow> None | x # r \<Rightarrow> Some (argmax_from 0 x 1 r))"

text \<open>
  \<^verbatim>\<open>predict\<close> with \<^verbatim>\<open>return_probability=False\<close>.  \<^verbatim>\<open>argmax\<close> of an empty array and
  \<^verbatim>\<open>inverse_transform\<close> of an unknown index raise inside the \<^verbatim>\<open>try\<close> block, whose handler
  returns \<^verbatim>\<open>(None, 0.0)\<close>.
\<close>

definition predict :: "classifier \<Rightarrow> pystr \<Rightarrow> py_error + (pystr option \<times> rat)" where
  "predict clf text =
     (case pipeline clf of
        None \<Rightarrow> Inl ValueError
      | Some predict_proba \<Rightarrow>
          if \<not> is_trained clf then Inl ValueError
          else if text = [] then Inr (None, 0)
          else (case predict_proba text of
                  None \<Rightarrow> Inr (None, 0)
                | Some proba \<Rightarrow>
                    (case argmax proba of
                       None \<Rightarrow> Inr (None, 0)
                     | Some max_idx \<Rightarrow>
                         if max_idx < length (classes clf)
                         then Inr (Some (classes clf ! max_idx), proba ! max_idx)
                         else Inr (None, 0))))"

definition CONFIDENCE_THRESHOLD :: rat where
  "CONFIDENCE_THRESHOLD = 8 / 10"

definition predict_with_threshold ::
  "classifier \<Rightarrow> pystr \<Rightarrow> rat \<Rightarrow> py_error + (pystr option \<times> rat \<times> bool)" where
  "predict_with_threshold clf text threshold =
     (case predict clf text of
        Inl e \<Rightarrow> Inl e
      | Inr (category, confidence) \<Rightarrow>
          if confidence \<ge> threshold then Inr (category, confidence, True)
          else Inr (None, confidence, False))"

section \<open>Rows of the database and \<^verbatim>\<open>utils.generate_budget_recommendations\<close>\<close>

datatype sqlval = Sql_null | Sql_int int | Sql_real rat | Sql_text pystr

text \<open>A row turned into a \<^verbatim>\<open>dict\<close>: column names with their values.\<close>

type_synonym row = "(string \<times> sqlval) list"

text \<open>
  The dictionary returned by \<^verbatim>\<open>database.get_period_statistics\<close>; the empty dictionary
  \<^verbatim>\<open>{}\<close> that it returns after an \<^verbatim>\<open>sqlite3.Error\<close> is \<open>None\<close> of \<open>statistics option\<close>.
\<close>

record statistics =
  period :: string
  start_date :: int
  end_date :: int
  overall :: row
  by_category :: "row list"
  most_expensive :: "row option"
  most_frequent :: "row option"
  days_in_period :: int

text \<open>The value of a number in arithmetic and comparisons; anything else raises \<^verbatim>\<open>TypeError\<close>.\<close>

definition num_of :: "sqlval \<Rightarrow> rat option" where
  "num_of v = (case v of Sql_int i \<Rightarrow> Some (of_int i) | Sql_real r \<Rightarrow> Some r | _ \<Rightarrow> None)"

datatype spending_group = Essentials | Wants | Savings

text \<open>
  \<^verbatim>\<open>config.BUDGET_RATIOS\<close> and \<^verbatim>\<open>config.CATEGORY_GROUPS\<close>: the category names are the
  Russian names of \<^verbatim>\<open>config.py\<close>, as code points.
\<close>

definition BUDGET_RATIOS :: "spending_group \<Rightarrow> rat" where
  "BUDGET_RATIOS g = (case g of Essentials \<Rightarrow> 5 / 10 | Wants \<Rightarrow> 3 / 10 | Savings \<Rightarrow> 2 / 10)"

definition CATEGORY_GROUPS :: "spending_group \<Rightarrow> pystr list" where
  "CATEGORY_GROUPS g =
     (case g of
        Essentials \<Rightarrow>
          [[1055, 1088, 1086, 1076, 1091, 1082, 1090, 1099],
           [1058, 1088, 1072, 1085, 1089, 1087, 1086, 1088, 1090],
           [1047, 1076, 1086, 1088, 1086, 1074, 1100, 1077],
           [1054, 1073, 1088, 1072, 1079, 1086, 1074, 1072, 1085, 1080, 1077]]
      | Wants \<Rightarrow>
          [[1045, 1076, 1072], [1050, 1072, 1092, 1077],
           [1056, 1072, 1079, 1074, 1083, 1077, 1095, 1077, 1085, 1080, 1103]]
      | Savings \<Rightarrow> [[1044, 1088, 1091, 1075, 1086, 1077]])"

text \<open>
  The recommendations are f-strings; the model keeps which sentence is produced and the
  numbers put into it: the group, the actual percentage, the ideal percentage and (where
  the sentence shows it) the deviation.
\<close>

datatype recommendation =
    Not_enough_data
  | Over_target spending_group rat rat rat
  | Under_target spending_group rat rat rat
  | On_target spending_group rat rat
  | Good_distribution
  | Reduce_essentials
  | Reduce_wants

text \<open>
  \<^verbatim>\<open>{cat['category']: cat['total'] for cat in ...}\<close>: a later row replaces an earlier one
  with the same category; a row without one of the two columns raises \<^verbatim>\<open>KeyError\<close>,
  which the model does not tell apart from \<^verbatim>\<open>TypeError\<close>.
\<close>

fun category_expenses :: "row list \<Rightarrow> (sqlval \<rightharpoonup> sqlval) \<Rightarrow> py_error + (sqlval \<rightharpoonup> sqlval)" where
  "category_expenses [] d = Inr d"
| "category_expenses (cat # cats) d =
     (case (map_of cat ''category'', map_of cat ''total'') of
        (Some c, Some t) \<Rightarrow> category_expenses cats (d(c \<mapsto> t))
      | _ \<Rightarrow> Inl TypeError)"

text \<open>\<^verbatim>\<open>group_expenses[group] += category_expenses.get(category, 0)\<close> over one group.\<close>

fun group_expense :: "(sqlval \<rightharpoonup> sqlval) \<Rightarrow> pystr list \<Rightarrow> rat \<Rightarrow> py_error + rat" where
  "group_expense d [] acc = Inr acc"
| "group_expense d (category # categories) acc =
     (case d (Sql_text category) of
        None \<Rightarrow> group_expense d categories acc
      | Some v \<Rightarrow>
          (case num_of v of
             None \<Rightarrow> Inl TypeError
           | Some x \<Rightarrow> group_expense d categories (acc + x)))"

definition deviation_of :: "rat \<Rightarrow> spending_group \<Rightarrow> rat" where
  "deviation_of actual_percentage g = actual_percentage - BUDGET_RATIOS g * 100"

text \<open>One round of the loop over \<^verbatim>\<open>BUDGET_RATIOS.items()\<close>.\<close>

definition group_recommendation :: "spending_group \<Rightarrow> rat \<Rightarrow> recommendation" where
  "group_recommendation g actual_percentage =
     (let ideal_percentage = BUDGET_RATIOS g;
          deviation = actual_percentage - ideal_percentage * 100
      in if deviation > 10 then Over_target g actual_percentage (ideal_percentage * 100) deviation
         else if deviation < - 10 then
           Under_target g actual_percentage (ideal_percentage * 100) deviation
         else On_target g actual_percentage (ideal_percentage * 100))"

definition overall_recommendation :: "rat \<Rightarrow> rat \<Rightarrow> recommendation list" where
  "overall_recommendation essentials_percentage wants_percentage =
     (let essentials_ok = (\<bar>essentials_percentage - BUDGET_RATIOS Essentials * 100\<bar> \<le> 10);
          wants_ok = (\<bar>wants_percentage - BUDGET_RATIOS Wants * 100\<bar> \<le> 10)
      in if essentials_ok \<and> wants_ok then [Good_distribution]
         else if \<not> essentials_ok then [Reduce_essentials]
         else if \<not> wants_ok then [Reduce_wants]
         else [])"

text \<open>
  \<^verbatim>\<open>stats.get('overall', {}).get('total_amount', 0)\<close>; a total that is not a number
  (\<^verbatim>\<open>None\<close> for SQL's NULL) raises \<^verbatim>\<open>TypeError\<close> in the comparison with 0.
\<close>

definition total_amount_of :: "statistics option \<Rightarrow> py_error + rat" where
  "total_amount_of stats =
     (case stats of
        None \<Rightarrow> Inr 0
      | Some st \<Rightarrow>
          (case map_of (overall st) ''total_amount'' of
             None \<Rightarrow> Inr 0
           | Some v \<Rightarrow> (case num_of v of None \<Rightarrow> Inl TypeError | Some x \<Rightarrow> Inr x)))"

definition group_percentage ::
  "(sqlval \<rightharpoonup> sqlval) \<Rightarrow> rat \<Rightarrow> spending_group \<Rightarrow> py_error + rat" where
  "group_percentage d total_amount g =
     (case group_expense d (CATEGORY_GROUPS g) 0 of
        Inl e \<Rightarrow> Inl e
      | Inr amount \<Rightarrow> Inr (if total_amount > 0 then amount / total_amount * 100 else 0))"

definition generate_budget_recommendations ::
  "statistics option \<Rightarrow> py_error + recommendation list" where
  "generate_budget_recommendations stats =
     (case total_amount_of stats of
        Inl e \<Rightarrow> Inl e
      | Inr total_amount \<Rightarrow>
          if total_amount \<le> 0 then Inr [Not_enough_data]
          else
            (case category_expenses (case stats of None \<Rightarrow> [] | Some st \<Rightarrow> by_category st)
                    Map.empty of
               Inl e \<Rightarrow> Inl e
             | Inr d \<Rightarrow>
                 (case (group_percentage d total_amount Essentials,
                        group_percentage d total_amount Wants,
                        group_percentage d total_amount Savings) of
                    (Inr pe, Inr pw, Inr ps) \<Rightarrow>
                      Inr ([group_recommendation Essentials pe, group_recommendation Wants pw,
                            group_recommendation Savings ps]
                           @ overall_recommendation pe pw)
                  | (Inl e, _, _) \<Rightarrow> Inl e
                  | (_, Inl e, _) \<Rightarrow> Inl e
                  | (_, _, Inl e) \<Rightarrow> Inl e)))"

section \<open>\<^verbatim>\<open>database.get_period_statistics\<close>\<close>

text \<open>
  The four \<^verbatim>\<open>SELECT\<close> statements of the function, in the order in which it runs them.
  What SQLite answers is a parameter: \<open>run_select\<close> gives the rows of a statement for a
  user and a period, or \<open>None\<close> when \<^verbatim>\<open>execute\<close> raises \<^verbatim>\<open>sqlite3.Error\<close>.  The calendar
  arithmetic of \<^verbatim>\<open>datetime\<close> is a parameter too; a time is an integer.
\<close>

datatype select =
    Overall_statistics
  | Statistics_by_category
  | Most_expensive_transaction
  | Most_frequent_category

record sqlite =
  run_select :: "select \<Rightarrow> nat \<Rightarrow> int \<Rightarrow> int \<Rightarrow> row list option"

record calendar =
  day_start :: "int \<Rightarrow> int"
  week_start :: "int \<Rightarrow> int"
  month_start :: "int \<Rightarrow> int"
  year_start :: "int \<Rightarrow> int"
  year_2000 :: int
  days_between :: "int \<Rightarrow> int \<Rightarrow> int"

text \<open>
  An \<^verbatim>\<open>sqlite3.Cursor\<close>.  Its attribute \<^verbatim>\<open>rowcount\<close> counts the rows modified by
  \<^verbatim>\<open>INSERT\<close>, \<^verbatim>\<open>UPDATE\<close>, \<^verbatim>\<open>DELETE\<close> and \<^verbatim>\<open>REPLACE\<close>; it is -1 on a new cursor and after
  any other statement, so \<^verbatim>\<open>execute\<close> of a \<^verbatim>\<open>SELECT\<close> leaves it at -1.
\<close>

record cursor =
  rowcount :: int
  pending :: "row list"

definition new_cursor :: cursor where
  "new_cursor = \<lparr>rowcount = - 1, pending = []\<rparr>"

definition execute_select ::
  "sqlite \<Rightarrow> select \<Rightarrow> nat \<Rightarrow> int \<Rightarrow> int \<Rightarrow> cursor \<Rightarrow> cursor option" where
  "execute_select db q user_id start_d end_d cur =
     (case run_select db q user_id start_d end_d of
        None \<Rightarrow> None
      | Some rs \<Rightarrow> Some (cur\<lparr>rowcount := - 1, pending := rs\<rparr>))"

definition fetchone :: "cursor \<Rightarrow> row option \<times> cursor" where
  "fetchone cur = (case pending cur of [] \<Rightarrow> (None, cur) | r # rs \<Rightarrow> (Some r, cur\<lparr>pending := rs\<rparr>))"

definition fetchall :: "cursor \<Rightarrow> row list \<times> cursor" where
  "fetchall cur = (pending cur, cur\<lparr>pending := []\<rparr>)"

text \<open>
  \<^verbatim>\<open>dict(cursor.fetchone()) if cursor.rowcount > 0 else None\<close>; \<^verbatim>\<open>dict(None)\<close> raises
  \<^verbatim>\<open>TypeError\<close>.
\<close>

definition row_if_rowcount :: "cursor \<Rightarrow> py_error + (row option \<times> cursor)" where
  "row_if_rowcount cur =
     (if rowcount cur > 0 then
        (case fetchone cur of
           (None, cur') \<Rightarrow> Inl TypeError
         | (Some r, cur') \<Rightarrow> Inr (Some r, cur'))
      else Inr (None, cur))"

definition period_start :: "calendar \<Rightarrow> string \<Rightarrow> int \<Rightarrow> int" where
  "period_start cal p now =
     (if p = ''day'' then day_start cal now
      else if p = ''week'' then week_start cal now
      else if p = ''month'' then month_start cal now
      else if p = ''year'' then year_start cal now
      else year_2000 cal)"

definition get_period_statistics ::
  "sqlite \<Rightarrow> calendar \<Rightarrow> int \<Rightarrow> nat \<Rightarrow> string \<Rightarrow> py_error + statistics option" where
  "get_period_statistics db cal now user_id p =
     (let start_d = period_start cal p now; end_d = now in
      case execute_select db Overall_statistics user_id start_d end_d new_cursor of
        None \<Rightarrow> Inr None
      | Some c1 \<Rightarrow>
          (let (r1, c1') = fetchone c1;
               overall_stats = (case r1 of None \<Rightarrow> [] | Some r \<Rightarrow> r) in
           case execute_select db Statistics_by_category user_id start_d end_d c1' of
             None \<Rightarrow> Inr None
           | Some c2 \<Rightarrow>
               (let (category_stats, c2') = fetchall c2 in
                case execute_select db Most_expensive_transaction user_id start_d end_d c2' of
                  None \<Rightarrow> Inr None
                | Some c3 \<Rightarrow>
                    (case row_if_rowcount c3 of
                       Inl e \<Rightarrow> Inl e
                     | Inr (most_exp, c3') \<Rightarrow>
                         (case execute_select db Most_frequent_category user_id start_d end_d c3' of
                            None \<Rightarrow> Inr None
                          | Some c4 \<Rightarrow>
                              (case row_if_rowcount c4 of
                                 Inl e \<Rightarrow> Inl e
                               | Inr (most_freq, c4') \<Rightarrow>
                                   Inr (Some \<lparr>period = p, start_date = start_d, end_date = end_d,
                                              overall = overall_stats,
                                              by_category = category_stats,
                                              most_expensive = most_exp,
                                              most_frequent = most_freq,
                                              days_in_period =
                                                days_between cal start_d end_d + 1\<rparr>)))))))"

text \<open>\<^verbatim>\<open>stats.get('most_expensive')\<close> and \<^verbatim>\<open>stats.get('most_frequent')\<close>.\<close>

definition get_most_expensive :: "statistics option \<Rightarrow> row option" where
  "get_most_expensive stats = (case stats of None \<Rightarrow> None | Some st \<Rightarrow> most_expensive st)"

definition get_most_frequent :: "statistics option \<Rightarrow> row option" where
  "get_most_frequent stats = (case stats of None \<Rightarrow> None | Some st \<Rightarrow> most_frequent st)"

section \<open>The storage used by the bot\<close>

text \<open>
  The tables \<^verbatim>\<open>categories\<close> and \<^verbatim>\<open>transactions\<close> of \<^verbatim>\<open>database.py\<close>.  \<open>cat_rows\<close> holds the
  rows \<^verbatim>\<open>(id, name)\<close> of the categories in the order of \<^verbatim>\<open>ORDER BY name\<close>; \<open>last_id\<close> is
  the last value of the \<^verbatim>\<open>AUTOINCREMENT\<close> key; \<open>write_fails\<close> tells whether the next
  \<^verbatim>\<open>INSERT\<close> raises \<^verbatim>\<open>sqlite3.Error\<close>.
\<close>

record transaction =
  t_id :: nat
  t_user :: nat
  t_amount :: rat
  t_description :: "pystr option"
  t_category :: "nat option"

record storage =
  cat_rows :: "(nat \<times> pystr) list"
  tx_rows :: "transaction list"
  last_id :: nat
  write_fails :: bool

definition get_category_id :: "storage \<Rightarrow> pystr option \<Rightarrow> nat option" where
  "get_category_id st category_name =
     (case category_name of
        None \<Rightarrow> None
      | Some name \<Rightarrow> map_option fst (find (\<lambda>(i, n). n = name) (cat_rows st)))"

definition get_all_categories :: "storage \<Rightarrow> (nat \<times> pystr) list" where
  "get_all_categories st = cat_rows st"

text \<open>
  \<^verbatim>\<open>insert_transaction\<close>: the new \<^verbatim>\<open>lastrowid\<close>, or \<^verbatim>\<open>None\<close> after the rollback that
  follows an \<^verbatim>\<open>sqlite3.Error\<close>.
\<close>

definition insert_transaction ::
  "storage \<Rightarrow> nat \<Rightarrow> rat \<Rightarrow> pystr option \<Rightarrow> nat option \<Rightarrow> nat option \<times> storage" where
  "insert_transaction st user_id amount description category_id =
     (if write_fails st then (None, st)
      else (let transaction_id = Suc (last_id st) in
            (Some transaction_id,
             st\<lparr>tx_rows := tx_rows st @
                    [\<lparr>t_id = transaction_id, t_user = user_id, t_amount = amount,
                      t_description = description, t_category = category_id\<rparr>],
                last_id := transaction_id\<rparr>)))"

section \<open>The handlers of \<^verbatim>\<open>bot.py\<close>\<close>

datatype conv_state = DESCRIPTION | AMOUNT | CONFIRM_CATEGORY | FAST_CATEGORY | FAST_AMOUNT | END

text \<open>
  \<^verbatim>\<open>context.user_data\<close> is a dictionary with string keys; the keys that the handlers
  use are a datatype, the values Python values.
\<close>

datatype key =
    K_amount
  | K_description
  | K_is_auto_category
  | K_confidence
  | K_is_high_confidence
  | K_suggested_category
  | K_category_id
  | K_fast_category_id
  | K_fast_category_name

datatype pyval = V_none | V_bool bool | V_float rat | V_int nat | V_str pystr

type_synonym user_data = "key \<rightharpoonup> pyval"

text \<open>The truth value of \<^verbatim>\<open>user_data.get(k)\<close>, and of \<^verbatim>\<open>user_data.get(k, False)\<close>.\<close>

definition truthy :: "pyval option \<Rightarrow> bool" where
  "truthy v =
     (case v of
        None \<Rightarrow> False
      | Some V_none \<Rightarrow> False
      | Some (V_bool b) \<Rightarrow> b
      | Some (V_float x) \<Rightarrow> x \<noteq> 0
      | Some (V_int n) \<Rightarrow> n \<noteq> 0
      | Some (V_str t) \<Rightarrow> t \<noteq> [])"

definition opt_int :: "nat option \<Rightarrow> pyval" where
  "opt_int i = (case i of None \<Rightarrow> V_none | Some n \<Rightarrow> V_int n)"

definition opt_str :: "pystr option \<Rightarrow> pyval" where
  "opt_str t = (case t of None \<Rightarrow> V_none | Some x \<Rightarrow> V_str x)"

text \<open>
  The \<^verbatim>\<open>callback_data\<close> of the buttons that the two conversations create, and
  \<^verbatim>\<open>confirm_no\<close>, which a handler tests for.
\<close>

datatype callback =
    Confirm_yes
  | Confirm_no
  | Change_category
  | Select_cat nat
  | Cancel_add
  | Fast_cat nat
  | Fast_cancel

datatype label =
    Category_name pystr
  | Yes_correct
  | No_change_category
  | Yes_save
  | No_cancel
  | Cancel_button

type_synonym button = "label \<times> callback"

text \<open>
  The messages that the handlers send (with \<^verbatim>\<open>reply_text\<close> or \<^verbatim>\<open>edit_message_text\<close>):
  which message it is and the values that matter here, not its formatted text.
\<close>

datatype message =
    Add_prompt
  | Amount_not_recognised
  | Added_automatically nat
  | Save_failed
  | Check_data
  | Choose_manually
  | Added nat
  | Data_lost
  | Enter_again
  | Add_cancelled
  | Confirm_manual
  | Choose_action
  | Choose_category
  | No_categories
  | Fast_choose_category
  | Fast_cancelled
  | Category_not_found
  | Fast_enter_amount
  | Fast_invalid validation_msg
  | Fast_no_category
  | Fast_added nat
  | Fast_add_cancelled
  | Operation_cancelled

record reply =
  body :: message
  keyboard :: "button list list"

record world =
  user_data :: user_data
  storage :: storage
  outbox :: "reply list"

definition send :: "message \<Rightarrow> button list list \<Rightarrow> world \<Rightarrow> world" where
  "send m kb w = w\<lparr>outbox := outbox w @ [\<lparr>body = m, keyboard = kb\<rparr>]\<rparr>"

definition clear :: "world \<Rightarrow> world" where
  "clear w = w\<lparr>user_data := Map.empty\<rparr>"

text \<open>
  The loop that lays the category buttons out two in a row:
  \<^verbatim>\<open>for i, cat in enumerate(categories, 1)\<close>.
\<close>

fun keyboard_rows ::
  "(nat \<Rightarrow> callback) \<Rightarrow> nat \<Rightarrow> (nat \<times> pystr) list \<Rightarrow> nat \<Rightarrow> button list \<Rightarrow> button list list" where
  "keyboard_rows mk n [] i r = []"
| "keyboard_rows mk n ((cid, name) # cats) i r =
     (let r' = r @ [(Category_name name, mk cid)] in
      if i mod 2 = 0 \<or> i = n then r' # keyboard_rows mk n cats (Suc i) []
      else keyboard_rows mk n cats (Suc i) r')"

definition category_keyboard :: "(nat \<Rightarrow> callback) \<Rightarrow> (nat \<times> pystr) list \<Rightarrow> button list list" where
  "category_keyboard mk categories = keyboard_rows mk (length categories) categories 1 []"

definition select_keyboard :: "storage \<Rightarrow> button list list" where
  "select_keyboard st =
     category_keyboard Select_cat (get_all_categories st) @ [[(Cancel_button, Cancel_add)]]"

text \<open>The global \<^verbatim>\<open>classifier\<close> of \<^verbatim>\<open>bot.py\<close> (\<^verbatim>\<open>None\<close> when it could not be initialised).\<close>

record env =
  udb :: unicode_db
  clf :: "classifier option"

definition HIGH_CONFIDENCE_THRESHOLD :: rat where
  "HIGH_CONFIDENCE_THRESHOLD = 85 / 100"

text \<open>The default category (the Russian word for "other") and the label of an unsure prediction.\<close>

definition other_category :: pystr where
  "other_category = [1044, 1088, 1091, 1075, 1086, 1077]"

definition choice_needed :: pystr where
  "choice_needed =
     [10067, 32, 1058, 1088, 1077, 1073, 1091, 1077, 1090, 1089, 1103, 32, 1074, 1099, 1073,
      1086, 1088]"

type_synonym outcome = "(py_error + conv_state) \<times> world"

definition add_transaction_start :: "world \<Rightarrow> outcome" where
  "add_transaction_start w = (Inr DESCRIPTION, send Add_prompt [] w)"

text \<open>
  The block \<^verbatim>\<open>if classifier and description:\<close> of \<^verbatim>\<open>add_transaction_text\<close>: the
  suggested category, the confidence, the category id, \<^verbatim>\<open>is_high_confidence\<close>, and
  \<^verbatim>\<open>user_data\<close> after the block.
\<close>

definition suggest ::
  "env \<Rightarrow> storage \<Rightarrow> pystr \<Rightarrow> user_data \<Rightarrow>
     py_error + (pystr option \<times> rat \<times> nat option \<times> bool \<times> user_data)" where
  "suggest e st description ud =
     (case clf e of
        None \<Rightarrow> Inr (Some other_category, 0, get_category_id st (Some other_category), False, ud)
      | Some classifier \<Rightarrow>
          if description = [] then
            Inr (Some other_category, 0, get_category_id st (Some other_category), False, ud)
          else
            (case predict_with_threshold classifier description CONFIDENCE_THRESHOLD of
               Inl err \<Rightarrow> Inl err
             | Inr (category, conf, is_confident) \<Rightarrow>
                 if is_confident then
                   (let is_high_confidence = (conf \<ge> HIGH_CONFIDENCE_THRESHOLD) in
                    Inr (category, conf, get_category_id st category, is_high_confidence,
                         ud(K_is_auto_category \<mapsto> V_bool True, K_confidence \<mapsto> V_float conf,
                            K_is_high_confidence \<mapsto> V_bool is_high_confidence)))
                 else
                   Inr (Some choice_needed, conf, get_category_id st (Some other_category), False,
                        ud(K_is_auto_category \<mapsto> V_bool False, K_confidence \<mapsto> V_float conf,
                           K_is_high_confidence \<mapsto> V_bool False))))"

definition add_transaction_text :: "env \<Rightarrow> nat \<Rightarrow> pystr \<Rightarrow> world \<Rightarrow> outcome" where
  "add_transaction_text e user_id user_text w =
     (case parse_amount (udb e) user_text of
        Inl err \<Rightarrow> (Inl err, w)
      | Inr None \<Rightarrow> (Inr DESCRIPTION, send Amount_not_recognised [] w)
      | Inr (Some (amount, description)) \<Rightarrow>
          (let ud1 = (user_data w)(K_amount \<mapsto> V_float amount, K_description \<mapsto> V_str description)
           in case suggest e (storage w) description ud1 of
                Inl err \<Rightarrow> (Inl err, w\<lparr>user_data := ud1\<rparr>)
              | Inr (suggested_category, confidence, category_id, is_high_confidence, ud2) \<Rightarrow>
                  (let ud3 = ud2(K_suggested_category \<mapsto> opt_str suggested_category,
                                 K_category_id \<mapsto> opt_int category_id);
                       w3 = w\<lparr>user_data := ud3\<rparr>
                   in if is_high_confidence then
                        (case insert_transaction (storage w3) user_id amount (Some description)
                                category_id of
                           (Some transaction_id, st') \<Rightarrow>
                             (Inr END,
                              clear (send (Added_automatically transaction_id) []
                                       (w3\<lparr>storage := st'\<rparr>)))
                         | (None, st') \<Rightarrow>
                             (Inr END, clear (send Save_failed [] (w3\<lparr>storage := st'\<rparr>))))
                      else if truthy (ud3 K_is_auto_category) then
                        (Inr CONFIRM_CATEGORY,
                         send Check_data
                           [[(Yes_correct, Confirm_yes)], [(No_change_category, Change_category)]] w3)
                      else
                        (Inr CONFIRM_CATEGORY,
                         send Choose_manually (select_keyboard (storage w3)) w3))))"

definition change_category_callback :: "world \<Rightarrow> outcome" where
  "change_category_callback w =
     (Inr CONFIRM_CATEGORY, send Choose_category (select_keyboard (storage w)) w)"

text \<open>
  \<^verbatim>\<open>confirm_category_callback\<close>.  \<^verbatim>\<open>if amount and category_id\<close> holds for a non-zero
  amount and a non-zero id, which this handler then passes to \<^verbatim>\<open>insert_transaction\<close>.
\<close>

definition confirm_category_callback :: "nat \<Rightarrow> callback \<Rightarrow> world \<Rightarrow> outcome" where
  "confirm_category_callback user_id cb w =
     (if cb = Change_category then change_category_callback w
      else if cb = Confirm_yes then
        (case (user_data w K_amount, user_data w K_category_id) of
           (Some (V_float amount), Some (V_int category_id)) \<Rightarrow>
             if amount \<noteq> 0 \<and> category_id \<noteq> 0 then
               (case insert_transaction (storage w) user_id amount
                       (case user_data w K_description of Some (V_str d) \<Rightarrow> Some d | _ \<Rightarrow> None)
                       (Some category_id) of
                  (Some transaction_id, st') \<Rightarrow>
                    (Inr END, clear (send (Added transaction_id) [] (w\<lparr>storage := st'\<rparr>)))
                | (None, st') \<Rightarrow> (Inr END, clear (send Save_failed [] (w\<lparr>storage := st'\<rparr>))))
             else (Inr END, clear (send Data_lost [] w))
         | _ \<Rightarrow> (Inr END, clear (send Data_lost [] w)))
      else if cb = Confirm_no then (Inr DESCRIPTION, send Enter_again [] w)
      else (Inr CONFIRM_CATEGORY, w))"

definition cancel_add :: "world \<Rightarrow> outcome" where
  "cancel_add w = (Inr END, send Add_cancelled [] (clear w))"

text \<open>The name of the category with a given id: the loop with \<^verbatim>\<open>break\<close>.\<close>

definition category_name_of :: "storage \<Rightarrow> nat \<Rightarrow> pystr option" where
  "category_name_of st category_id =
     map_option snd (find (\<lambda>(i, n). i = category_id) (get_all_categories st))"

definition category_selection_callback :: "callback \<Rightarrow> world \<Rightarrow> outcome" where
  "category_selection_callback cb w =
     (if cb = Cancel_add then (Inr END, clear (send Add_cancelled [] w))
      else
        (case cb of
           Select_cat category_id \<Rightarrow>
             (case category_name_of (storage w) category_id of
                None \<Rightarrow> (Inr CONFIRM_CATEGORY, w)
              | Some category_name \<Rightarrow>
                  if category_name = [] then (Inr CONFIRM_CATEGORY, w)
                  else
                    (let w1 = w\<lparr>user_data := (user_data w)
                                  (K_suggested_category \<mapsto> V_str category_name,
                                   K_category_id \<mapsto> V_int category_id,
                                   K_is_auto_category \<mapsto> V_bool False)\<rparr>
                     in (Inr CONFIRM_CATEGORY,
                         send Choose_action [[(Yes_save, Confirm_yes)], [(No_cancel, Cancel_add)]]
                           (send Confirm_manual [] w1))))
         | _ \<Rightarrow> (Inr CONFIRM_CATEGORY, w)))"

definition fast_add_start :: "world \<Rightarrow> outcome" where
  "fast_add_start w =
     (let categories = get_all_categories (storage w) in
      if categories = [] then (Inr END, send No_categories [] w)
      else (Inr FAST_CATEGORY,
            send Fast_choose_category
              (category_keyboard Fast_cat categories @ [[(Cancel_button, Fast_cancel)]]) w))"

definition fast_category_callback :: "callback \<Rightarrow> world \<Rightarrow> outcome" where
  "fast_category_callback cb w =
     (if cb = Fast_cancel then (Inr END, send Fast_cancelled [] w)
      else
        (case cb of
           Fast_cat category_id \<Rightarrow>
             (case category_name_of (storage w) category_id of
                None \<Rightarrow> (Inr END, send Category_not_found [] w)
              | Some category_name \<Rightarrow>
                  if category_name = [] then (Inr END, send Category_not_found [] w)
                  else
                    (Inr FAST_AMOUNT,
                     send Fast_enter_amount []
                       (w\<lparr>user_data := (user_data w)
                             (K_fast_category_id \<mapsto> V_int category_id,
                              K_fast_category_name \<mapsto> V_str category_name)\<rparr>)))
         | _ \<Rightarrow> (Inr FAST_CATEGORY, w)))"

definition fast_amount_input :: "env \<Rightarrow> nat \<Rightarrow> pystr \<Rightarrow> world \<Rightarrow> outcome" where
  "fast_amount_input e user_id user_text w =
     (case validate_amount (udb e) user_text of
        Inl err \<Rightarrow> (Inl err, w)
      | Inr (success, amount, error_msg) \<Rightarrow>
          (case (success, amount) of
             (True, Some a) \<Rightarrow>
               (case user_data w K_fast_category_id of
                  Some (V_int category_id) \<Rightarrow>
                    if category_id = 0 then (Inr END, clear (send Fast_no_category [] w))
                    else
                      (case insert_transaction (storage w) user_id a None (Some category_id) of
                         (Some transaction_id, st') \<Rightarrow>
                           (Inr END,
                            clear (send (Fast_added transaction_id) [] (w\<lparr>storage := st'\<rparr>)))
                       | (None, st') \<Rightarrow>
                           (Inr END, clear (send Save_failed [] (w\<lparr>storage := st'\<rparr>))))
                | _ \<Rightarrow> (Inr END, clear (send Fast_no_category [] w)))
           | _ \<Rightarrow> (Inr FAST_AMOUNT, send (Fast_invalid error_msg) [] w)))"

definition cancel_fast_add :: "world \<Rightarrow> outcome" where
  "cancel_fast_add w = (Inr END, send Fast_add_cancelled [] (clear w))"

text \<open>The handler \<^verbatim>\<open>cancel\<close> of the command \<^verbatim>\<open>/cancel\<close> outside the conversations.\<close>

definition cancel :: "world \<Rightarrow> outcome" where
  "cancel w = (Inr END, send Operation_cancelled [] w)"

section \<open>The two conversations of \<^verbatim>\<open>main\<close>\<close>

text \<open>
  The updates that concern the two conversations: the commands \<^verbatim>\<open>/add\<close>, \<^verbatim>\<open>/fast\<close> and
  \<^verbatim>\<open>/cancel\<close>, a text message that is not a command, and the press of a button.
\<close>

datatype event =
    Cmd_add
  | Cmd_fast
  | Cmd_cancel
  | Text_message pystr
  | Callback_query callback

type_synonym handler = "world \<Rightarrow> outcome"

text \<open>
  A \<^verbatim>\<open>ConversationHandler\<close> of python-telegram-bot with \<^verbatim>\<open>allow_reentry=True\<close> looks for
  the handler of an update among its entry points first, then among the handlers of the
  current state, then among the fallbacks, each list in its order.  The state \<open>None\<close>
  means that the user is not in the conversation.  The patterns of the
  \<^verbatim>\<open>CallbackQueryHandler\<close>s are prefixes of the \<^verbatim>\<open>callback_data\<close>: \<^verbatim>\<open>^confirm_\<close>,
  \<^verbatim>\<open>^change_category\<close>, \<^verbatim>\<open>^select_cat_\<close>, \<^verbatim>\<open>^cancel_add\<close> and \<^verbatim>\<open>^fast_\<close>.
\<close>

definition conv_handler :: "env \<Rightarrow> nat \<Rightarrow> conv_state option \<Rightarrow> event \<Rightarrow> handler option" where
  "conv_handler e user_id state ev =
     (if ev = Cmd_add then Some add_transaction_start
      else
        (case state of
           None \<Rightarrow> None
         | Some DESCRIPTION \<Rightarrow>
             (case ev of
                Text_message t \<Rightarrow> Some (add_transaction_text e user_id t)
              | Cmd_cancel \<Rightarrow> Some cancel_add
              | _ \<Rightarrow> None)
         | Some CONFIRM_CATEGORY \<Rightarrow>
             (case ev of
                Callback_query Confirm_yes \<Rightarrow> Some (confirm_category_callback user_id Confirm_yes)
              | Callback_query Confirm_no \<Rightarrow> Some (confirm_category_callback user_id Confirm_no)
              | Callback_query Change_category \<Rightarrow> Some change_category_callback
              | Callback_query (Select_cat i) \<Rightarrow> Some (category_selection_callback (Select_cat i))
              | Callback_query Cancel_add \<Rightarrow> Some (category_selection_callback Cancel_add)
              | Cmd_cancel \<Rightarrow> Some cancel_add
              | _ \<Rightarrow> None)
         | Some _ \<Rightarrow> (case ev of Cmd_cancel \<Rightarrow> Some cancel_add | _ \<Rightarrow> None)))"

definition fast_conv_handler :: "env \<Rightarrow> nat \<Rightarrow> conv_state option \<Rightarrow> event \<Rightarrow> handler option" where
  "fast_conv_handler e user_id state ev =
     (if ev = Cmd_fast then Some fast_add_start
      else
        (case state of
           None \<Rightarrow> None
         | Some FAST_CATEGORY \<Rightarrow>
             (case ev of
                Callback_query (Fast_cat i) \<Rightarrow> Some (fast_category_callback (Fast_cat i))
              | Callback_query Fast_cancel \<Rightarrow> Some (fast_category_callback Fast_cancel)
              | Cmd_cancel \<Rightarrow> Some cancel_fast_add
              | _ \<Rightarrow> None)
         | Some FAST_AMOUNT \<Rightarrow>
             (case ev of
                Text_message t \<Rightarrow> Some (fast_amount_input e user_id t)
              | Cmd_cancel \<Rightarrow> Some cancel_fast_add
              | _ \<Rightarrow> None)
         | Some _ \<Rightarrow> (case ev of Cmd_cancel \<Rightarrow> Some cancel_fast_add | _ \<Rightarrow> None)))"

text \<open>
  The state of a conversation after its handler has run: \<^verbatim>\<open>ConversationHandler.END\<close>
  ends the conversation, an exception leaves the state as it was.
\<close>

definition next_state :: "conv_state option \<Rightarrow> py_error + conv_state \<Rightarrow> conv_state option" where
  "next_state old res =
     (case res of Inl err \<Rightarrow> old | Inr st \<Rightarrow> if st = END then None else Some st)"

record bot =
  add_conv :: "conv_state option"
  fast_conv :: "conv_state option"
  bot_world :: world

text \<open>
  \<^verbatim>\<open>main\<close> adds every handler to the same group, where the first handler that accepts an
  update handles it alone.  The \<^verbatim>\<open>CommandHandler\<close> of \<^verbatim>\<open>/cancel\<close>, with the handler
  \<^verbatim>\<open>cancel\<close>, is added before the two conversations, then the conversation of \<^verbatim>\<open>/add\<close>,
  then the one of \<^verbatim>\<open>/fast\<close>; no later handler accepts one of these updates.
\<close>

definition process_update :: "env \<Rightarrow> nat \<Rightarrow> event \<Rightarrow> bot \<Rightarrow> bot" where
  "process_update e user_id ev b =
     (if ev = Cmd_cancel then b\<lparr>bot_world := snd (cancel (bot_world b))\<rparr>
      else
        (case conv_handler e user_id (add_conv b) ev of
           Some h \<Rightarrow>
             (let (res, w') = h (bot_world b)
              in b\<lparr>add_conv := next_state (add_conv b) res, bot_world := w'\<rparr>)
         | None \<Rightarrow>
             (case fast_conv_handler e user_id (fast_conv b) ev of
                Some h \<Rightarrow>
                  (let (res, w') = h (bot_world b)
                   in b\<lparr>fast_conv := next_state (fast_conv b) res, bot_world := w'\<rparr>)
              | None \<Rightarrow> b)))"

fun run :: "env \<Rightarrow> nat \<Rightarrow> event list \<Rightarrow> bot \<Rightarrow> bot" where
  "run e user_id [] b = b"
| "run e user_id (ev # evs) b = run e user_id evs (process_update e user_id ev b)"

text \<open>
  A bot that has just started, with the categories of a storage and no transaction, and
  an environment without classifier.
\<close>

definition fresh_bot :: "(nat \<times> pystr) list \<Rightarrow> bot" where
  "fresh_bot categories =
     \<lparr>add_conv = None, fast_conv = None,
      bot_world = \<lparr>user_data = Map.empty,
                   storage = \<lparr>cat_rows = categories, tx_rows = [], last_id = 0,
                              write_fails = False\<rparr>,
                   outbox = []\<rparr>\<rparr>"

definition no_classifier :: env where
  "no_classifier = \<lparr>udb = ascii_cyrillic, clf = None\<rparr>"

section \<open>Properties of texts and of the Unicode tables\<close>



section \<open>Concrete inputs\<close>

text \<open>
  A trained classifier with two classes (the Russian words for "food" and "cafe") whose
  pipeline gives every text the probabilities 0.1 and 0.9.
\<close>

definition two_class_classifier :: classifier where
  "two_class_classifier =
     \<lparr>is_trained = True, pipeline = Some (\<lambda>t. Some [1 / 10, 9 / 10]),
      classes = [[1045, 1076, 1072], [1050, 1072, 1092, 1077]]\<rparr>"

text \<open>
  Statistics of a month with a total of 1000: 700 for groceries (an essential), 200 for
  cafes (a want) and 100 for the category "other" (savings).
\<close>

definition month_statistics :: statistics where
  "month_statistics =
     \<lparr>period = ''month'', start_date = 0, end_date = 30,
      overall = [(''transaction_count'', Sql_int 3), (''total_amount'', Sql_real 1000)],
      by_category =
        [[(''category'', Sql_text [1055, 1088, 1086, 1076, 1091, 1082, 1090, 1099]),
          (''count'', Sql_int 1), (''total'', Sql_real 700)],
         [(''category'', Sql_text [1050, 1072, 1092, 1077]),
          (''count'', Sql_int 1), (''total'', Sql_real 200)],
         [(''category'', Sql_text [1044, 1088, 1091, 1075, 1086, 1077]),
          (''count'', Sql_int 1), (''total'', Sql_real 100)]],
      most_expensive = None, most_frequent = None, days_in_period = 31\<rparr>"


definition confident_env :: env where
  "confident_env = \<lparr>udb = ascii_cyrillic, clf = Some two_class_classifier\<rparr>"


text \<open>The categories "cafe" (id 1) and "other" (id 2).\<close>

definition two_categories :: "(nat \<times> pystr) list" where
  "two_categories = [(1, [1050, 1072, 1092, 1077]), (2, [1044, 1088, 1091, 1075, 1086, 1077])]"

section \<open>Evaluation of the matcher on concrete texts\<close>

text \<open>
  The equations of \<open>rmatch\<close> for a state that is written out, so that the simplifier runs
  the matcher on a concrete text without unfolding it under the continuations, and the
  character classes at a concrete code point.
\<close>

lemma rmatch_eval:
  "rmatch Eps \<lparr>consumed = b, remaining = r, captures = c\<rparr> k = k \<lparr>consumed = b, remaining = r, captures = c\<rparr>"
  "rmatch (Cls P) \<lparr>consumed = b, remaining = [], captures = c\<rparr> k = None"
  "rmatch (Cls P) \<lparr>consumed = b, remaining = x # xs, captures = c\<rparr> k =
     (if P x then k \<lparr>consumed = x # b, remaining = xs, captures = c\<rparr> else None)"
  "rmatch (Star P) \<lparr>consumed = b, remaining = r, captures = c\<rparr> k =
     greedy P b r (\<lambda>b' r'. k \<lparr>consumed = b', remaining = r', captures = c\<rparr>)"
  "rmatch (Lazy P) \<lparr>consumed = b, remaining = r, captures = c\<rparr> k =
     lazy P b r (\<lambda>b' r'. k \<lparr>consumed = b', remaining = r', captures = c\<rparr>)"
  "rmatch (Opt a) \<lparr>consumed = b, remaining = r, captures = c\<rparr> k =
     (case rmatch a \<lparr>consumed = b, remaining = r, captures = c\<rparr> k of
        Some x \<Rightarrow> Some x | None \<Rightarrow> k \<lparr>consumed = b, remaining = r, captures = c\<rparr>)"
  "rmatch (Seq a a') \<lparr>consumed = b, remaining = r, captures = c\<rparr> k =
     rmatch a \<lparr>consumed = b, remaining = r, captures = c\<rparr> (\<lambda>s'. rmatch a' s' k)"
  "rmatch (Alt a a') \<lparr>consumed = b, remaining = r, captures = c\<rparr> k =
     (case rmatch a \<lparr>consumed = b, remaining = r, captures = c\<rparr> k of
        Some x \<Rightarrow> Some x | None \<Rightarrow> rmatch a' \<lparr>consumed = b, remaining = r, captures = c\<rparr> k)"
  "rmatch (Grp n a) \<lparr>consumed = b, remaining = r, captures = c\<rparr> k =
     rmatch a \<lparr>consumed = b, remaining = r, captures = c\<rparr>
       (\<lambda>s'. k (s'\<lparr>captures := (n, rev (take (length (consumed s') - length b) (consumed s'))) # captures s'\<rparr>))"
  "rmatch (Wordb W) \<lparr>consumed = b, remaining = r, captures = c\<rparr> k =
     (if (case b of [] \<Rightarrow> False | x # _ \<Rightarrow> W x) \<noteq> (case r of [] \<Rightarrow> False | x # _ \<Rightarrow> W x)
      then k \<lparr>consumed = b, remaining = r, captures = c\<rparr> else None)"
  "rmatch Bol \<lparr>consumed = b, remaining = r, captures = c\<rparr> k =
     (if b = [] then k \<lparr>consumed = b, remaining = r, captures = c\<rparr> else None)"
  "rmatch Eol \<lparr>consumed = b, remaining = r, captures = c\<rparr> k =
     (if r = [] \<or> r = [10] then k \<lparr>consumed = b, remaining = r, captures = c\<rparr> else None)"
  by (simp_all add: moved_def captured_def at_boundary_def)

declare rmatch.simps [simp del]

declare rmatch_eval [simp]

lemma isspace_numeral:
  "isspace (numeral n) \<longleftrightarrow>
     (9 \<le> (numeral n :: nat) \<and> (numeral n :: nat) \<le> 13)
     \<or> (28 \<le> (numeral n :: nat) \<and> (numeral n :: nat) \<le> 32)
     \<or> (numeral n :: nat) = 133 \<or> (numeral n :: nat) = 160 \<or> (numeral n :: nat) = 5760
     \<or> (8192 \<le> (numeral n :: nat) \<and> (numeral n :: nat) \<le> 8202)
     \<or> (numeral n :: nat) = 8232 \<or> (numeral n :: nat) = 8233 \<or> (numeral n :: nat) = 8239
     \<or> (numeral n :: nat) = 8287 \<or> (numeral n :: nat) = 12288"
  by (simp add: isspace_def)

lemma one_of_numeral: "one_of cs (numeral n) \<longleftrightarrow> numeral n \<in> set cs"
  by (simp add: one_of_def)

lemma any_chr_numeral: "any_chr (numeral n) \<longleftrightarrow> (numeral n :: nat) \<noteq> 10"
  by (simp add: any_chr_def)

lemma isdigit_numeral:
  "isdigit ascii_cyrillic (numeral n) \<longleftrightarrow> 48 \<le> (numeral n :: nat) \<and> (numeral n :: nat) \<le> 57"
  by (simp add: isdigit_def ascii_cyrillic_def)

lemma alnum_numeral:
  "alnum ascii_cyrillic (numeral n) \<longleftrightarrow>
     (48 \<le> (numeral n :: nat) \<and> (numeral n :: nat) \<le> 57)
     \<or> (65 \<le> (numeral n :: nat) \<and> (numeral n :: nat) \<le> 90)
     \<or> (97 \<le> (numeral n :: nat) \<and> (numeral n :: nat) \<le> 122)
     \<or> (1040 \<le> (numeral n :: nat) \<and> (numeral n :: nat) \<le> 1103)
     \<or> (numeral n :: nat) = 1025 \<or> (numeral n :: nat) = 1105"
  by (simp add: ascii_cyrillic_def)

lemma isword_numeral:
  "isword ascii_cyrillic (numeral n) \<longleftrightarrow>
     alnum ascii_cyrillic (numeral n) \<or> (numeral n :: nat) = 95"
  by (simp add: isword_def)

lemma decimal_numeral:
  "decimal ascii_cyrillic (numeral n) =
     (if 48 \<le> (numeral n :: nat) \<and> (numeral n :: nat) \<le> 57 then Some (numeral n - 48) else None)"
  by (simp add: ascii_cyrillic_def)

lemmas chr_eval = isspace_numeral one_of_numeral any_chr_numeral isdigit_numeral isword_numeral
  alnum_numeral decimal_numeral

lemmas re_defs = k_pattern_def pattern1_def pattern2_def pattern3_def patterns_def number_re_def
  currency_b_def currency_sign_def rub_def rublej_def rublja_def r_letter_def rouble_sign_def
  word_i_def starts_number_re_def re_search_def re_match_def groups_of_def moved_def captured_def
  at_boundary_def

lemmas parse_defs = parse_amount_def k_branch_def to_amount_def loop_body_def strip_def
  replace_chr_def remove_chr_def py_float_def unsigned_float_def

lemmas bot_defs = process_update_def conv_handler_def fast_conv_handler_def
  next_state_def add_transaction_start_def add_transaction_text_def suggest_def
  confirm_category_callback_def change_category_callback_def category_selection_callback_def
  category_name_of_def fast_add_start_def fast_category_callback_def fast_amount_input_def
  cancel_def cancel_add_def cancel_fast_add_def send_def clear_def insert_transaction_def
  get_category_id_def get_all_categories_def select_keyboard_def category_keyboard_def
  fresh_bot_def no_classifier_def other_category_def truthy_def opt_int_def opt_str_def
  validate_amount_def

section \<open>The validation of an amount\<close>

lemma parse_amount_nonblank:
  "parse_amount U s = Inr (Some p) \<Longrightarrow> s \<noteq> [] \<and> strip s \<noteq> []"
  by (auto simp: parse_amount_def split: if_splits)

text \<open>
  Claim C7.  For every amount string that \<open>parse_amount\<close> parses, \<open>validate_amount\<close> fails
  when the parsed amount is at most 0, fails when it is greater than 1,000,000,000, and
  succeeds with the parsed amount when it lies between the two.
\<close>

theorem validate_amount_bounds:
  assumes "parse_amount U s = Inr (Some (a, d))"
  shows "(a \<le> 0 \<longrightarrow> validate_amount U s = Inr (False, None, Must_be_positive))
       \<and> (a > 1000000000 \<longrightarrow> validate_amount U s = Inr (False, None, Too_large))
       \<and> (0 < a \<and> a \<le> 1000000000 \<longrightarrow> validate_amount U s = Inr (True, Some a, No_message))"
  using assms parse_amount_nonblank [OF assms] by (simp add: validate_amount_def)

theorem validate_amount_bounds_witness:
  "validate_amount ascii_cyrillic [45, 50, 48, 48] = Inr (False, None, Must_be_positive)
   \<and> validate_amount ascii_cyrillic [50, 48, 48] = Inr (True, Some 200, No_message)"
proof -
  have neg: "parse_amount ascii_cyrillic [45, 50, 48, 48] = Inr (Some (- 200, []))"
    by (simp add: parse_defs re_defs chr_eval)
  have pos: "parse_amount ascii_cyrillic [50, 48, 48] = Inr (Some (200, []))"
    by (simp add: parse_defs re_defs chr_eval)
  show ?thesis
    using validate_amount_bounds [OF neg] validate_amount_bounds [OF pos] by simp
qed

section \<open>The classifier\<close>

lemma argmax_from_spec:
  "best < length pre \<Longrightarrow> bv = pre ! best \<Longrightarrow> \<forall>j < length pre. pre ! j \<le> bv
    \<Longrightarrow> \<forall>j < best. pre ! j < bv
    \<Longrightarrow> argmax_from best bv (length pre) xs < length (pre @ xs)
        \<and> (\<forall>j < length (pre @ xs). (pre @ xs) ! j \<le> (pre @ xs) ! argmax_from best bv (length pre) xs)
        \<and> (\<forall>j < argmax_from best bv (length pre) xs.
              (pre @ xs) ! j < (pre @ xs) ! argmax_from best bv (length pre) xs)"
proof (induction xs arbitrary: pre best bv)
  case Nil
  then show ?case by simp
next
  case (Cons x xs)
  show ?case
  proof (cases "bv < x")
    case True
    have a: "length pre < length (pre @ [x])" by simp
    have b: "x = (pre @ [x]) ! length pre" by simp
    have c: "\<forall>j < length (pre @ [x]). (pre @ [x]) ! j \<le> x"
      using Cons.prems True by (auto simp: nth_append less_Suc_eq)
    have d: "\<forall>j < length pre. (pre @ [x]) ! j < x"
      using Cons.prems True by (auto simp: nth_append)
    from Cons.IH [OF a b c d] True show ?thesis by simp
  next
    case False
    have a: "best < length (pre @ [x])" using Cons.prems by simp
    have b: "bv = (pre @ [x]) ! best" using Cons.prems by (simp add: nth_append)
    have c: "\<forall>j < length (pre @ [x]). (pre @ [x]) ! j \<le> bv"
      using Cons.prems False by (auto simp: nth_append less_Suc_eq)
    have d: "\<forall>j < best. (pre @ [x]) ! j < bv"
      using Cons.prems by (auto simp: nth_append)
    from Cons.IH [OF a b c d] False show ?thesis by simp
  qed
qed

lemma argmax_spec:
  assumes "xs \<noteq> []"
  shows "\<exists>i. argmax xs = Some i \<and> i < length xs \<and> (\<forall>j < length xs. xs ! j \<le> xs ! i)
           \<and> (\<forall>j < i. xs ! j < xs ! i)"
proof -
  from assms obtain x r where xs: "xs = x # r" by (cases xs) auto
  have "argmax_from 0 x (length [x]) r < length ([x] @ r)
        \<and> (\<forall>j < length ([x] @ r). ([x] @ r) ! j \<le> ([x] @ r) ! argmax_from 0 x (length [x]) r)
        \<and> (\<forall>j < argmax_from 0 x (length [x]) r.
              ([x] @ r) ! j < ([x] @ r) ! argmax_from 0 x (length [x]) r)"
    by (rule argmax_from_spec) auto
  then show ?thesis by (simp add: xs argmax_def)
qed

text \<open>
  Claim C8.  For every text given to a trained classifier, \<open>predict_with_threshold\<close>
  returns the category and the confidence of \<open>predict\<close> with \<open>True\<close> when the confidence
  reaches the threshold, and no category, the confidence and \<open>False\<close> otherwise; for a
  text that the pipeline gives a probability to for each class, the category and the
  confidence are those of the first largest probability.
\<close>

theorem predict_with_threshold_spec:
  assumes "is_trained cl" and "pipeline cl = Some predict_proba"
  shows "\<exists>category confidence.
           predict cl text = Inr (category, confidence)
         \<and> predict_with_threshold cl text threshold =
             Inr (if confidence \<ge> threshold then (category, confidence, True)
                  else (None, confidence, False))
         \<and> (\<forall>proba. text \<noteq> [] \<and> predict_proba text = Some proba \<and> proba \<noteq> []
                \<and> length proba \<le> length (classes cl) \<longrightarrow>
               (\<exists>i < length proba. category = Some (classes cl ! i) \<and> confidence = proba ! i
                  \<and> (\<forall>j < length proba. proba ! j \<le> proba ! i)
                  \<and> (\<forall>j < i. proba ! j < proba ! i)))"
proof (cases "text = []")
  case True
  with assms show ?thesis by (simp add: predict_def predict_with_threshold_def)
next
  case False
  show ?thesis
  proof (cases "predict_proba text")
    case None
    with assms False show ?thesis by (simp add: predict_def predict_with_threshold_def)
  next
    case (Some proba)
    show ?thesis
    proof (cases "proba = []")
      case True
      with assms False Some show ?thesis
        by (simp add: predict_def predict_with_threshold_def argmax_def)
    next
      case nonempty: False
      from argmax_spec [OF nonempty] obtain i where i: "argmax proba = Some i" "i < length proba"
        "\<forall>j < length proba. proba ! j \<le> proba ! i" "\<forall>j < i. proba ! j < proba ! i"
        by blast
      show ?thesis
      proof (cases "i < length (classes cl)")
        case True
        with assms False Some i show ?thesis
          by (auto simp: predict_def predict_with_threshold_def)
      next
        case False
        with assms \<open>text \<noteq> []\<close> Some i show ?thesis
          by (auto simp: predict_def predict_with_threshold_def)
      qed
    qed
  qed
qed

theorem predict_with_threshold_spec_witness:
  "predict_with_threshold two_class_classifier [1082, 1086, 1092, 1077] (8 / 10) =
     Inr (Some [1050, 1072, 1092, 1077], 9 / 10, True)
   \<and> predict_with_threshold two_class_classifier [1082, 1086, 1092, 1077] (95 / 100) =
     Inr (None, 9 / 10, False)"
proof -
  have t: "is_trained two_class_classifier"
    and p: "pipeline two_class_classifier = Some (\<lambda>t. Some [1 / 10, 9 / 10])"
    by (simp_all add: two_class_classifier_def)
  have pr: "predict two_class_classifier [1082, 1086, 1092, 1077] =
              Inr (Some [1050, 1072, 1092, 1077], 9 / 10)"
    by (simp add: predict_def two_class_classifier_def argmax_def)
  from predict_with_threshold_spec [OF t p, of "[1082, 1086, 1092, 1077]" "8 / 10"] pr
  have a: "predict_with_threshold two_class_classifier [1082, 1086, 1092, 1077] (8 / 10) =
             Inr (Some [1050, 1072, 1092, 1077], 9 / 10, True)"
    by auto
  from predict_with_threshold_spec [OF t p, of "[1082, 1086, 1092, 1077]" "95 / 100"] pr
  have b: "predict_with_threshold two_class_classifier [1082, 1086, 1092, 1077] (95 / 100) =
             Inr (None, 9 / 10, False)"
    by auto
  from a b show ?thesis by simp
qed

section \<open>The statistics of a period\<close>

text \<open>
  When every query succeeds the statistics are returned, with the rows the queries gave for
  the overall figures and for the categories, and with nothing in the two guarded fields.
\<close>

lemma period_statistics_returned:
  assumes "\<And>q. run_select db q user_id (period_start cal p now) now = Some (rows q)"
  shows "get_period_statistics db cal now user_id p =
           Inr (Some \<lparr>period = p, start_date = period_start cal p now, end_date = now,
                      overall = (case rows Overall_statistics of [] \<Rightarrow> [] | r # _ \<Rightarrow> r),
                      by_category = rows Statistics_by_category,
                      most_expensive = None, most_frequent = None,
                      days_in_period = days_between cal (period_start cal p now) now + 1\<rparr>)"
  by (simp add: get_period_statistics_def execute_select_def row_if_rowcount_def fetchone_def
      fetchall_def new_cursor_def Let_def assms split: list.splits)

text \<open>
  Claim C10.  For every user, period and content of the database, the statistics
  returned by \<open>get_period_statistics\<close> have no most expensive transaction and no most
  frequent category: the guard reads \<open>rowcount\<close>, which is -1 after a \<^verbatim>\<open>SELECT\<close>.
\<close>

theorem period_statistics_rowcount:
  "\<exists>stats. get_period_statistics db cal now user_id p = Inr stats
      \<and> get_most_expensive stats = None \<and> get_most_frequent stats = None"
  unfolding get_period_statistics_def execute_select_def row_if_rowcount_def fetchone_def
    fetchall_def new_cursor_def Let_def get_most_expensive_def get_most_frequent_def
  by (auto split: option.splits prod.splits list.splits)

section \<open>The budget recommendations\<close>

lemma group_recommendation_band:
  "(deviation_of p g > 10 \<longrightarrow>
      group_recommendation g p = Over_target g p (BUDGET_RATIOS g * 100) (deviation_of p g))
   \<and> (deviation_of p g < - 10 \<longrightarrow>
      group_recommendation g p = Under_target g p (BUDGET_RATIOS g * 100) (deviation_of p g))
   \<and> (- 10 \<le> deviation_of p g \<and> deviation_of p g \<le> 10 \<longrightarrow>
      group_recommendation g p = On_target g p (BUDGET_RATIOS g * 100))"
  by (simp add: group_recommendation_def deviation_of_def Let_def)

text \<open>
  Claim C9.  When the total of the period is positive, the recommendations start with one
  recommendation for each of the three groups, in the order essentials, wants, savings;
  with the deviation of a group being its actual percentage minus its ideal percentage (50,
  30 and 20), a deviation above 10 gives "over target", a deviation below -10 gives "under
  target", and every deviation from -10 to 10 gives "on target".  The band of 10 is not a
  parameter of the function.
\<close>

theorem budget_deviation_band:
  assumes "total_amount_of stats = Inr total_amount" and "0 < total_amount"
    and "category_expenses (case stats of None \<Rightarrow> [] | Some st \<Rightarrow> by_category st) Map.empty = Inr d"
    and "group_percentage d total_amount Essentials = Inr pe"
    and "group_percentage d total_amount Wants = Inr pw"
    and "group_percentage d total_amount Savings = Inr ps"
  shows "generate_budget_recommendations stats =
           Inr ([group_recommendation Essentials pe, group_recommendation Wants pw,
                 group_recommendation Savings ps] @ overall_recommendation pe pw)
       \<and> (\<forall>g p. deviation_of p g = p - (case g of Essentials \<Rightarrow> 50 | Wants \<Rightarrow> 30 | Savings \<Rightarrow> 20)
             \<and> (deviation_of p g > 10 \<longrightarrow>
                  group_recommendation g p = Over_target g p (BUDGET_RATIOS g * 100) (deviation_of p g))
             \<and> (deviation_of p g < - 10 \<longrightarrow>
                  group_recommendation g p = Under_target g p (BUDGET_RATIOS g * 100) (deviation_of p g))
             \<and> (- 10 \<le> deviation_of p g \<and> deviation_of p g \<le> 10 \<longrightarrow>
                  group_recommendation g p = On_target g p (BUDGET_RATIOS g * 100)))"
proof -
  have "generate_budget_recommendations stats =
           Inr ([group_recommendation Essentials pe, group_recommendation Wants pw,
                 group_recommendation Savings ps] @ overall_recommendation pe pw)"
    using assms by (simp add: generate_budget_recommendations_def)
  moreover have "deviation_of p g = p - (case g of Essentials \<Rightarrow> 50 | Wants \<Rightarrow> 30 | Savings \<Rightarrow> 20)"
    for p g
    by (cases g) (simp_all add: deviation_of_def BUDGET_RATIOS_def)
  ultimately show ?thesis using group_recommendation_band by blast
qed

theorem budget_deviation_band_witness:
  "generate_budget_recommendations (Some month_statistics) =
     Inr [Over_target Essentials 70 50 20, On_target Wants 20 30, On_target Savings 10 20,
          Reduce_essentials]"
proof -
  let ?d = "[Sql_text [1055, 1088, 1086, 1076, 1091, 1082, 1090, 1099] \<mapsto> Sql_real 700,
             Sql_text [1050, 1072, 1092, 1077] \<mapsto> Sql_real 200,
             Sql_text [1044, 1088, 1091, 1075, 1086, 1077] \<mapsto> Sql_real 100]"
  have t: "total_amount_of (Some month_statistics) = Inr 1000"
    by (simp add: total_amount_of_def month_statistics_def num_of_def)
  have p: "(0::rat) < 1000" by simp
  have c: "category_expenses
             (case Some month_statistics of None \<Rightarrow> [] | Some st \<Rightarrow> by_category st) Map.empty =
           Inr ?d"
    by (simp add: month_statistics_def)
  have e: "group_percentage ?d 1000 Essentials = Inr 70"
    by (simp add: group_percentage_def CATEGORY_GROUPS_def num_of_def)
  have w: "group_percentage ?d 1000 Wants = Inr 20"
    by (simp add: group_percentage_def CATEGORY_GROUPS_def num_of_def)
  have s: "group_percentage ?d 1000 Savings = Inr 10"
    by (simp add: group_percentage_def CATEGORY_GROUPS_def num_of_def)
  show ?thesis
    using budget_deviation_band [OF t p c e w s]
    by (simp add: group_recommendation_def overall_recommendation_def BUDGET_RATIOS_def)
qed

section \<open>The routing by confidence\<close>





section \<open>The pending state at the end of a conversation\<close>

text \<open>
  The handlers that commit a transaction empty the pending state whenever they end the
  conversation, also when the insertion fails, and so do the handlers that cancel the
  conversation of \<^verbatim>\<open>/add\<close>.
\<close>

lemma add_text_end_clears:
  "fst (add_transaction_text e user_id user_text w) = Inr END \<Longrightarrow>
   user_data (snd (add_transaction_text e user_id user_text w)) = Map.empty"
  by (auto simp: add_transaction_text_def Let_def clear_def send_def
      split: sum.splits option.splits prod.splits if_splits)

lemma confirm_end_clears:
  "fst (confirm_category_callback user_id cb w) = Inr END \<Longrightarrow>
   user_data (snd (confirm_category_callback user_id cb w)) = Map.empty"
  by (auto simp: confirm_category_callback_def change_category_callback_def clear_def send_def
      split: option.splits pyval.splits prod.splits if_splits)

lemma selection_end_clears:
  "fst (category_selection_callback cb w) = Inr END \<Longrightarrow>
   user_data (snd (category_selection_callback cb w)) = Map.empty"
  by (auto simp: category_selection_callback_def clear_def send_def Let_def
      split: option.splits callback.splits if_splits)

lemma fast_amount_end_clears:
  "fst (fast_amount_input e user_id user_text w) = Inr END \<Longrightarrow>
   user_data (snd (fast_amount_input e user_id user_text w)) = Map.empty"
  by (auto simp: fast_amount_input_def clear_def send_def
      split: sum.splits option.splits pyval.splits prod.splits if_splits bool.splits)

lemma cancel_commands_clear:
  "user_data (snd (cancel_add w)) = Map.empty" "user_data (snd (cancel_fast_add w)) = Map.empty"
  by (simp_all add: cancel_add_def cancel_fast_add_def clear_def send_def)

text \<open>
  Claim C3 says that every path that reaches a commit or a cancel leaves the pending
  state of the user empty.  The cancel button of the fast conversation does not: after
  \<^verbatim>\<open>/fast\<close>, the choice of category 1, \<^verbatim>\<open>/fast\<close> again and the cancel button, the
  conversation has ended and \<open>user_data\<close> still holds the chosen category.
\<close>

theorem fast_cancel_keeps_pending_state:
  "fast_conv (run no_classifier 7
                [Cmd_fast, Callback_query (Fast_cat 1), Cmd_fast, Callback_query Fast_cancel]
                (fresh_bot two_categories)) = None
   \<and> user_data (bot_world (run no_classifier 7
                [Cmd_fast, Callback_query (Fast_cat 1), Cmd_fast, Callback_query Fast_cancel]
                (fresh_bot two_categories))) K_fast_category_id = Some (V_int 1)
   \<and> user_data (bot_world (run no_classifier 7
                [Cmd_fast, Callback_query (Fast_cat 1), Cmd_fast, Callback_query Fast_cancel]
                (fresh_bot two_categories))) \<noteq> Map.empty"
proof -
  let ?b = "run no_classifier 7
              [Cmd_fast, Callback_query (Fast_cat 1), Cmd_fast, Callback_query Fast_cancel]
              (fresh_bot two_categories)"
  have a: "fast_conv ?b = None"
    by (simp add: bot_defs two_categories_def)
  have b: "user_data (bot_world ?b) K_fast_category_id = Some (V_int 1)"
    by (simp add: bot_defs two_categories_def)
  from b have "user_data (bot_world ?b) \<noteq> Map.empty"
    by (metis option.distinct(1))
  with a b show ?thesis by simp
qed

section \<open>Negative amounts in the conversations\<close>

text \<open>
  Claim C2 says that a negative amount is rejected before any insertion.  The fast
  conversation validates its amount, and \<open>validate_amount\<close> rejects the text \<^verbatim>\<open>-200\<close>; the
  conversation of \<^verbatim>\<open>/add\<close> does not validate: the text \<^verbatim>\<open>-200\<close>, the choice of category 1
  and the confirmation insert a transaction of -200, and with a confident classifier a
  description followed by \<^verbatim>\<open>-200\<close> is inserted at once.
\<close>

theorem negative_amount_committed:
  "validate_amount ascii_cyrillic [45, 50, 48, 48] = Inr (False, None, Must_be_positive)
   \<and> tx_rows (storage (bot_world (run no_classifier 7
        [Cmd_add, Text_message [45, 50, 48, 48], Callback_query (Select_cat 1),
         Callback_query Confirm_yes]
        (fresh_bot two_categories)))) =
       [\<lparr>t_id = 1, t_user = 7, t_amount = - 200, t_description = Some [], t_category = Some 1\<rparr>]
   \<and> tx_rows (storage (bot_world (run confident_env 7
        [Cmd_add, Text_message [1082, 1086, 1092, 1077, 32, 45, 50, 48, 48]]
        (fresh_bot two_categories)))) =
       [\<lparr>t_id = 1, t_user = 7, t_amount = - 200, t_description = Some [1082, 1086, 1092, 1077],
         t_category = Some 1\<rparr>]"
proof -
  have p1: "parse_amount ascii_cyrillic [45, 50, 48, 48] = Inr (Some (- 200, []))"
    by (simp add: parse_defs re_defs chr_eval)
  have p2: "parse_amount ascii_cyrillic [1082, 1086, 1092, 1077, 32, 45, 50, 48, 48] =
              Inr (Some (- 200, [1082, 1086, 1092, 1077]))"
    by (simp add: parse_defs re_defs chr_eval)
  have a: "validate_amount ascii_cyrillic [45, 50, 48, 48] = Inr (False, None, Must_be_positive)"
    using p1 by (simp add: validate_amount_def strip_def chr_eval)
  have b: "tx_rows (storage (bot_world (run no_classifier 7
        [Cmd_add, Text_message [45, 50, 48, 48], Callback_query (Select_cat 1),
         Callback_query Confirm_yes]
        (fresh_bot two_categories)))) =
       [\<lparr>t_id = 1, t_user = 7, t_amount = - 200, t_description = Some [], t_category = Some 1\<rparr>]"
    using p1 by (simp add: bot_defs two_categories_def)
  have c: "tx_rows (storage (bot_world (run confident_env 7
        [Cmd_add, Text_message [1082, 1086, 1092, 1077, 32, 45, 50, 48, 48]]
        (fresh_bot two_categories)))) =
       [\<lparr>t_id = 1, t_user = 7, t_amount = - 200, t_description = Some [1082, 1086, 1092, 1077],
         t_category = Some 1\<rparr>]"
    using p2
    by (simp add: bot_defs two_categories_def confident_env_def two_class_classifier_def
        predict_with_threshold_def predict_def argmax_def CONFIDENCE_THRESHOLD_def
        HIGH_CONFIDENCE_THRESHOLD_def)
  from a b c show ?thesis by simp
qed

section \<open>The matcher on every text\<close>

subsection \<open>Failure of the matcher\<close>













subsection \<open>Success of the matcher\<close>




subsection \<open>Searching with an anchored pattern\<close>




subsection \<open>Texts without a digit, and the amount of a result\<close>









subsection \<open>Steps of a successful match\<close>








subsection \<open>The patterns on a number, alone, described, or with the suffix\<close>








subsection \<open>The value of a number\<close>





subsection \<open>\<open>parse_amount\<close> on a number, alone, described, or with the suffix\<close>







section \<open>The claims about \<open>parse_amount\<close>\<close>


subsection \<open>The minus sign\<close>




subsection \<open>The shorthand suffix\<close>




subsection \<open>The failures of the parser\<close>




end
